theory Spec2Isabelle
  imports Complex_Main "HOL-Library.Sublist"
begin

section \<open>cncPathPreview: a shallow embedding of \<^verbatim>\<open>cncpathpreview.py\<close>\<close>

text \<open>
  Conventions of the embedding.
  \<^item> A Python float is a \<^typ>\<open>real\<close>: \<^verbatim>\<open>+\<close>, \<^verbatim>\<open>-\<close>, \<^verbatim>\<open>/\<close>, \<^verbatim>\<open>sqrt\<close>, \<^verbatim>\<open>acos\<close>,
    \<^verbatim>\<open>degrees\<close> and \<^verbatim>\<open>round\<close> are the exact operations on the exact value. The rounding
    error of binary floating point is not part of the model, and neither are the
    infinities and NaN: every number of the model is finite. In particular
    \<^verbatim>\<open>round(x, n)\<close> is taken on the real \<open>x\<close>, where Python takes it on the nearest double
    (the two can differ when \<open>x\<close> lies within a rounding error of a tie). The concrete
    inputs evaluated below are chosen so that the floating-point run computes the same
    values: their intermediate results are exact in binary, or far from a tie.
  \<^item> A character is a code point below 256, and a \<^typ>\<open>string\<close> a sequence of them; text
    with other code points is outside the model.
  \<^item> A raised exception is the left injection of a sum; nothing in the program catches
    \<^verbatim>\<open>ValueError\<close> or \<^verbatim>\<open>TypeError\<close>, so an \<open>Inl\<close> of \<open>create_dataset_from_input\<close> is the
    program ending with a traceback.
  \<^item> A G-code line is a \<^typ>\<open>string\<close>; the file is the list of its lines.
  \<^item> Console output (\<^verbatim>\<open>click.echo\<close>) is left out, except for the diagnostic of
    \<open>convert_input_zsafety\<close>, which is returned as a flag.
\<close>

subsection \<open>The string methods the program calls\<close>

text \<open>\<^verbatim>\<open>s.find(sub)\<close>: the index of the first occurrence of \<open>sub\<close> in \<open>s\<close>, or \<open>-1\<close>.\<close>

fun py_find :: "string \<Rightarrow> string \<Rightarrow> int" where
  "py_find [] sub = (if sub = [] then 0 else - 1)"
| "py_find (c # cs) sub =
     (if prefix sub (c # cs) then 0
      else (let r = py_find cs sub in if r < 0 then - 1 else r + 1))"

text \<open>\<^verbatim>\<open>s.strip(chars)\<close>: drop the characters of \<open>chars\<close> from both ends.\<close>

definition py_strip_chars :: "string \<Rightarrow> string \<Rightarrow> string" where
  "py_strip_chars chars s =
     rev (dropWhile (\<lambda>c. c \<in> set chars) (rev (dropWhile (\<lambda>c. c \<in> set chars) s)))"

text \<open>The white space that \<^verbatim>\<open>str.strip()\<close> and \<^verbatim>\<open>float\<close> remove, among the code points
  below 256: tab, line feed, vertical tab, form feed, carriage return, the four
  separators \<open>0x1c\<close> to \<open>0x1f\<close>, the blank, next line \<open>0x85\<close> and the no-break space
  \<open>0xa0\<close>.\<close>

definition whitespace :: string where
  "whitespace =
     [CHR 0x09, CHR 0x0A, CHR 0x0B, CHR 0x0C, CHR 0x0D,
      CHR 0x1C, CHR 0x1D, CHR 0x1E, CHR 0x1F, CHR 0x20, CHR 0x85, CHR 0xA0]"

text \<open>\<^verbatim>\<open>s.strip()\<close>.\<close>

definition py_strip :: "string \<Rightarrow> string" where
  "py_strip s = py_strip_chars whitespace s"

text \<open>\<^verbatim>\<open>s.split(' ')\<close>: split at every single blank; two blanks in a row give an empty
  token, and the empty string gives one empty token.\<close>

fun py_split :: "string \<Rightarrow> string list" where
  "py_split [] = [[]]"
| "py_split (c # cs) =
     (if c = CHR '' '' then [] # py_split cs
      else (case py_split cs of
              [] \<Rightarrow> [[c]]
            | w # ws \<Rightarrow> (c # w) # ws))"

subsection \<open>The conversion \<^verbatim>\<open>float(s)\<close>\<close>

text \<open>
  \<^verbatim>\<open>float\<close> accepts, between optional white space, an optional sign, a decimal mantissa
  with at least one digit (\<^verbatim>\<open>12\<close>, \<^verbatim>\<open>12.\<close>, \<^verbatim>\<open>.5\<close>, \<^verbatim>\<open>12.5\<close>) and an optional exponent
  (\<^verbatim>\<open>e\<close> or \<^verbatim>\<open>E\<close>, an optional sign, at least one digit). In each run of digits single
  underscores may stand between two digits (\<^verbatim>\<open>1_000\<close>). The value is the exact decimal,
  not its nearest double.

  \<^verbatim>\<open>float\<close> also accepts, in any case and with a sign, the words \<^verbatim>\<open>inf\<close>, \<^verbatim>\<open>infinity\<close> and
  \<^verbatim>\<open>nan\<close>. Their values are no real numbers: \<open>nonfinite_literal\<close> recognises them, and
  \<open>py_float\<close> has no value for them. Everything else raises \<^verbatim>\<open>ValueError\<close>. So \<open>py_float s\<close>
  is \<open>Some x\<close> when \<^verbatim>\<open>float(s)\<close> is the finite number \<open>x\<close>, and \<open>None\<close> is the \<^verbatim>\<open>ValueError\<close>
  whenever \<open>s\<close> is not a non-finite literal.
\<close>

definition is_digit :: "char \<Rightarrow> bool" where
  "is_digit c = (c \<in> set ''0123456789'')"

definition is_digit_or_underscore :: "char \<Rightarrow> bool" where
  "is_digit_or_underscore c = (is_digit c \<or> c = CHR ''_'')"

text \<open>A run of digits and underscores is well formed when it is empty, or starts and ends
  with a digit and has no two underscores in a row.\<close>

fun no_double_underscore :: "string \<Rightarrow> bool" where
  "no_double_underscore (a # b # cs) =
     (if a = CHR ''_'' \<and> b = CHR ''_'' then False else no_double_underscore (b # cs))"
| "no_double_underscore cs = True"

definition digit_group_ok :: "string \<Rightarrow> bool" where
  "digit_group_ok g =
     (if g = [] then True
      else is_digit (hd g) \<and> is_digit (last g) \<and> no_double_underscore g)"

definition digits_value :: "string \<Rightarrow> nat" where
  "digits_value ds = foldl (\<lambda>n c. 10 * n + (of_char c - 48)) 0 (filter is_digit ds)"

text \<open>An optional sign at the head of a string: the sign and the rest.\<close>

fun take_sign :: "string \<Rightarrow> bool \<times> string" where
  "take_sign [] = (False, [])"
| "take_sign (c # cs) =
     (if c = CHR ''-'' then (True, cs)
      else if c = CHR ''+'' then (False, cs)
      else (False, c # cs))"

text \<open>The exponent part: empty, or \<^verbatim>\<open>e\<close>/\<^verbatim>\<open>E\<close>, a sign, digits. \<open>None\<close> when malformed.\<close>

fun float_exponent :: "string \<Rightarrow> int option" where
  "float_exponent [] = Some 0"
| "float_exponent (c # cs) =
     (if c = CHR ''e'' \<or> c = CHR ''E'' then
        (let (neg, ds) = take_sign cs in
         if ds \<noteq> [] \<and> list_all is_digit_or_underscore ds \<and> digit_group_ok ds
         then Some (if neg then - int (digits_value ds) else int (digits_value ds))
         else None)
      else None)"

definition py_float :: "string \<Rightarrow> real option" where
  "py_float s =
     (let (neg, body) = take_sign (py_strip s);
          ip = takeWhile is_digit_or_underscore body;
          r1 = dropWhile is_digit_or_underscore body;
          has_dot = (r1 \<noteq> [] \<and> hd r1 = CHR ''.'');
          fp = (if has_dot then takeWhile is_digit_or_underscore (tl r1) else []);
          r2 = (if has_dot then dropWhile is_digit_or_underscore (tl r1) else r1)
      in if (ip = [] \<and> fp = []) \<or> \<not> digit_group_ok ip \<or> \<not> digit_group_ok fp then None
         else (case float_exponent r2 of
                 None \<Rightarrow> None
               | Some e \<Rightarrow>
                   (let m = real (digits_value ip) +
                            real (digits_value fp) / 10 ^ length (filter is_digit fp);
                        v = (if 0 \<le> e then m * 10 ^ nat e else m / 10 ^ nat (- e))
                    in Some (if neg then - v else v))))"

text \<open>The ASCII lower case of a character.\<close>

definition ascii_lower :: "char \<Rightarrow> char" where
  "ascii_lower c =
     (if 65 \<le> (of_char c :: nat) \<and> (of_char c :: nat) \<le> 90
      then char_of ((of_char c :: nat) + 32) else c)"

definition nonfinite_literal :: "string \<Rightarrow> bool" where
  "nonfinite_literal s =
     (map ascii_lower (snd (take_sign (py_strip s))) \<in> set [''inf'', ''infinity'', ''nan''])"

subsection \<open>Classifying a line\<close>

text \<open>
  \<^verbatim>\<open>is_move\<close> returns the value of an \<^verbatim>\<open>or\<close> chain whose second and fourth operands
  are the integers \<^verbatim>\<open>command.find('G0 ')\<close> and \<^verbatim>\<open>command.find('G1 ')\<close> themselves, with
  no comparison against \<open>-1\<close>. The caller tests the result in an \<^verbatim>\<open>if\<close>, so the model
  returns its truth value: an integer operand counts as true when it is not \<open>0\<close>.
\<close>

definition is_move :: "string \<Rightarrow> bool" where
  "is_move command =
     (if command \<noteq> [] then
        (py_find command ''G00'' > - 1 \<or> py_find command ''G0 '' \<noteq> 0 \<or>
         py_find command ''G01'' > - 1) \<or> py_find command ''G1 '' \<noteq> 0
      else False)"

definition is_arc :: "string \<Rightarrow> bool" where
  "is_arc command =
     (if command \<noteq> [] then
        ((py_find command ''G02'' > - 1) \<or> (py_find command ''G03'' > - 1) \<or>
         (py_find command ''G2 '' > - 1) \<or> (py_find command ''G3 '' > - 1))
      else False)"

definition is_coordinate_shift :: "string \<Rightarrow> bool" where
  "is_coordinate_shift command =
     (if command \<noteq> [] then py_find command ''G92'' > - 1 else False)"

subsection \<open>Parsing the axis words\<close>

datatype error = ValueError | TypeError

text \<open>The five slots of the list \<^verbatim>\<open>coordinate\<close>: X, Y, Z, I, J; \<open>None\<close> is Python's
  \<^verbatim>\<open>None\<close>.\<close>

record coordinate =
  cX :: "real option"
  cY :: "real option"
  cZ :: "real option"
  cI :: "real option"
  cJ :: "real option"

text \<open>One \<^verbatim>\<open>if value.find(L) > -1: coordinate[k] = float(value.strip(L + ' '))\<close>:
  the slot is written when the letter occurs anywhere in the token, and \<^verbatim>\<open>float\<close> may
  raise.\<close>

definition parse_axis ::
  "char \<Rightarrow> (real option \<Rightarrow> coordinate \<Rightarrow> coordinate) \<Rightarrow> string \<Rightarrow> coordinate \<Rightarrow> error + coordinate"
where
  "parse_axis letter store v c =
     (if py_find v [letter] > - 1 then
        (case py_float (py_strip_chars [letter, CHR '' ''] v) of
           None \<Rightarrow> Inl ValueError
         | Some f \<Rightarrow> Inr (store (Some f) c))
      else Inr c)"

text \<open>Sequencing of steps that may raise.\<close>

definition and_then :: "error + 'a \<Rightarrow> ('a \<Rightarrow> error + 'b) \<Rightarrow> error + 'b" where
  "and_then r f = (case r of Inl e \<Rightarrow> Inl e | Inr a \<Rightarrow> f a)"

text \<open>The body of the loop over the tokens: the five tests, in the source's order.\<close>

definition parse_value :: "string \<Rightarrow> coordinate \<Rightarrow> error + coordinate" where
  "parse_value v c =
     and_then (parse_axis CHR ''X'' (\<lambda>f c. c\<lparr>cX := f\<rparr>) v c) (\<lambda>c.
     and_then (parse_axis CHR ''Y'' (\<lambda>f c. c\<lparr>cY := f\<rparr>) v c) (\<lambda>c.
     and_then (parse_axis CHR ''Z'' (\<lambda>f c. c\<lparr>cZ := f\<rparr>) v c) (\<lambda>c.
     and_then (parse_axis CHR ''I'' (\<lambda>f c. c\<lparr>cI := f\<rparr>) v c) (\<lambda>c.
               parse_axis CHR ''J'' (\<lambda>f c. c\<lparr>cJ := f\<rparr>) v c))))"

fun parse_values :: "string list \<Rightarrow> coordinate \<Rightarrow> error + coordinate" where
  "parse_values [] c = Inr c"
| "parse_values (v # vs) c = and_then (parse_value v c) (parse_values vs)"

definition parse_coordinates :: "string \<Rightarrow> error + coordinate" where
  "parse_coordinates line =
     parse_values (py_split line)
       \<lparr>cX = None, cY = None, cZ = None, cI = None, cJ = None\<rparr>"

subsection \<open>Rounding and angles\<close>

text \<open>\<^verbatim>\<open>round(x, 0)\<close> on a float: the nearest whole number, a tie going to the even
  one; the result is again a float.\<close>

definition py_round0 :: "real \<Rightarrow> real" where
  "py_round0 x =
     (let f = \<lfloor>x\<rfloor>; d = x - of_int f
      in if d < 1 / 2 then of_int f
         else if 1 / 2 < d then of_int (f + 1)
         else if even f then of_int f else of_int (f + 1))"

text \<open>\<^verbatim>\<open>round(x, 3)\<close>: the nearest multiple of one thousandth of the real \<open>x\<close>, a tie going
  to the even one. Python decides on the double nearest to \<open>x\<close>, so at a decimal tie such
  as \<open>0.0005\<close>, which no double equals, the two can differ; no input evaluated below is
  near a tie.\<close>

definition py_round3 :: "real \<Rightarrow> real" where
  "py_round3 x = py_round0 (x * 1000) / 1000"

text \<open>\<^verbatim>\<open>int(x)\<close> on a float truncates towards zero.\<close>

definition py_int :: "real \<Rightarrow> int" where
  "py_int x = (if 0 \<le> x then \<lfloor>x\<rfloor> else \<lceil>x\<rceil>)"

text \<open>\<^verbatim>\<open>math.degrees\<close>.\<close>

definition degrees :: "real \<Rightarrow> real" where
  "degrees rad = rad * (180 / pi)"

text \<open>A resolved point \<open>[x, y, z]\<close>.\<close>

type_synonym point = "real \<times> real \<times> real"

definition pX :: "point \<Rightarrow> real" where "pX p = fst p"
definition pY :: "point \<Rightarrow> real" where "pY p = fst (snd p)"
definition pZ :: "point \<Rightarrow> real" where "pZ p = snd (snd p)"

text \<open>\<^verbatim>\<open>get_arc_degrees\<close> reads only the first two entries of \<open>coordinates\<close>.
  \<^verbatim>\<open>math.acos\<close> raises \<^verbatim>\<open>ValueError\<close> (math domain error) outside \<open>[-1, 1]\<close>.\<close>

definition get_arc_degrees :: "point \<Rightarrow> real \<times> real \<Rightarrow> real \<Rightarrow> error + real" where
  "get_arc_degrees coordinates arc_center radius =
     (if radius \<le> 0 then Inr 0
      else
        (let cos = py_round3 ((pX coordinates - fst arc_center) / radius)
         in if cos < - 1 \<or> 1 < cos then Inl ValueError
            else
              (let rad = arccos cos;
                   rad = (if pY coordinates - snd arc_center < 0 then 2 * pi - rad else rad)
               in Inr (py_round0 (degrees rad)))))"

subsection \<open>Resolving positions\<close>

text \<open>The list \<open>coordinates\<close> after \<^verbatim>\<open>fill_coordinates\<close>: the first three entries are
  numbers, the offsets I and J are as parsed.\<close>

record filled =
  fX :: real
  fY :: real
  fZ :: real
  fI :: "real option"
  fJ :: "real option"

definition fill_axis :: "real option \<Rightarrow> real \<Rightarrow> real \<Rightarrow> real" where
  "fill_axis c previous shift = (case c of None \<Rightarrow> previous | Some v \<Rightarrow> v + shift)"

definition fill_coordinates :: "coordinate \<Rightarrow> point \<Rightarrow> point \<Rightarrow> filled" where
  "fill_coordinates coordinates previous_coordinates shift =
     \<lparr>fX = fill_axis (cX coordinates) (pX previous_coordinates) (pX shift),
      fY = fill_axis (cY coordinates) (pY previous_coordinates) (pY shift),
      fZ = fill_axis (cZ coordinates) (pZ previous_coordinates) (pZ shift),
      fI = cI coordinates,
      fJ = cJ coordinates\<rparr>"

text \<open>\<^verbatim>\<open>if coordinate_system_shift[i]: shift[i] -= coordinate_system_shift[i]\<close>: the
  test is Python truthiness, false for \<^verbatim>\<open>None\<close> and for \<open>0.0\<close>.\<close>

definition shift_axis :: "real option \<Rightarrow> real \<Rightarrow> real" where
  "shift_axis c shift = (case c of None \<Rightarrow> shift | Some v \<Rightarrow> if v \<noteq> 0 then shift - v else shift)"

definition handle_coordinate_shift :: "string \<Rightarrow> point \<Rightarrow> error + point" where
  "handle_coordinate_shift line shift =
     and_then (parse_coordinates line) (\<lambda>coordinate_system_shift.
       Inr (shift_axis (cX coordinate_system_shift) (pX shift),
            shift_axis (cY coordinate_system_shift) (pY shift),
            shift_axis (cZ coordinate_system_shift) (pZ shift)))"

definition handle_linear_move :: "string \<Rightarrow> point \<Rightarrow> point \<Rightarrow> error + point" where
  "handle_linear_move line previous_coordinates shift =
     and_then (parse_coordinates line) (\<lambda>parsed.
       (let coordinates = fill_coordinates parsed previous_coordinates shift
        in Inr (fX coordinates, fY coordinates, fZ coordinates)))"

subsection \<open>Resolving an arc\<close>

text \<open>The two angles of the arc, in the order the source computes them; \<open>None\<close> is the
  \<^verbatim>\<open>else: return []\<close> of a line that names neither direction.\<close>

definition arc_start_end ::
  "string \<Rightarrow> point \<Rightarrow> point \<Rightarrow> real \<times> real \<Rightarrow> real \<Rightarrow> error + (real \<times> real) option"
where
  "arc_start_end line coordinates previous_coordinates arc_center radius =
     (if py_find line ''G02'' > - 1 \<or> py_find line ''G2 '' > - 1 then
        and_then (get_arc_degrees coordinates arc_center radius) (\<lambda>arc_start.
        and_then (get_arc_degrees previous_coordinates arc_center radius) (\<lambda>arc_end.
          Inr (Some (arc_start, arc_end))))
      else if py_find line ''G03'' > - 1 \<or> py_find line ''G3 '' > - 1 then
        and_then (get_arc_degrees previous_coordinates arc_center radius) (\<lambda>arc_start.
        and_then (get_arc_degrees coordinates arc_center radius) (\<lambda>arc_end.
          Inr (Some (arc_start, arc_end))))
      else Inr None)"

text \<open>\<^verbatim>\<open>range(a, b)\<close> as the list of its members, and the membership test
  \<^verbatim>\<open>crossing_angle in range(int(arc_start), int(arc_end))\<close>.\<close>

definition py_range :: "int \<Rightarrow> int \<Rightarrow> int list" where
  "py_range a b = [a..b - 1]"

text \<open>The loop \<^verbatim>\<open>for crossing_angle in range(90, 361, 90)\<close>: the entries of
  \<open>extremevalue_order\<close> whose angle lies in the range, in ascending order of the angle.
  Entry \<open>0\<close> of \<open>extremevalue_order\<close> is the placeholder \<^verbatim>\<open>0\<close> and is never read, so the
  list here holds the entries \<open>1\<close> to \<open>4\<close>.\<close>

definition crossing_points :: "real \<Rightarrow> real \<Rightarrow> point list \<Rightarrow> point list" where
  "crossing_points arc_start arc_end extremevalue_order =
     concat (map (\<lambda>crossing_angle.
                    if crossing_angle \<in> set (py_range (py_int arc_start) (py_int arc_end))
                    then [extremevalue_order ! (nat (py_int (real_of_int crossing_angle / 90)) - 1)]
                    else [])
                 [90, 180, 270, 360])"

text \<open>\<^verbatim>\<open>coordinates[3] ** 2\<close> raises \<^verbatim>\<open>TypeError\<close> when the entry is \<^verbatim>\<open>None\<close>.\<close>

definition handle_arc_move_ij :: "string \<Rightarrow> point \<Rightarrow> point \<Rightarrow> error + point list" where
  "handle_arc_move_ij line previous_coordinates shift =
     and_then (parse_coordinates line) (\<lambda>parsed.
       (let coordinates = fill_coordinates parsed previous_coordinates shift
        in case (fI coordinates, fJ coordinates) of
             (Some i, Some j) \<Rightarrow>
               (let radius = sqrt (i\<^sup>2 + j\<^sup>2);
                    arc_center = (pX previous_coordinates + i, pY previous_coordinates + j);
                    xyz = (fX coordinates, fY coordinates, fZ coordinates)
                in and_then (arc_start_end line xyz previous_coordinates arc_center radius)
                     (\<lambda>angles.
                        case angles of
                          None \<Rightarrow> Inr []
                        | Some (arc_start, arc_end) \<Rightarrow>
                            (let x_center = pX previous_coordinates + i;
                                 y_center = pY previous_coordinates + j;
                                 x_plus_radius = (x_center + radius, y_center, pZ xyz);
                                 y_plus_radius = (x_center, y_center + radius, pZ xyz);
                                 x_minus_radius = (x_center - radius, y_center, pZ xyz);
                                 y_minus_radius = (x_center, y_center - radius, pZ xyz);
                                 extremevalue_order =
                                   [y_plus_radius, x_minus_radius, y_minus_radius, x_plus_radius];
                                 arc_end = (if arc_end - arc_start < 0 then arc_end + 360
                                            else arc_end)
                             in Inr (crossing_points arc_start arc_end extremevalue_order
                                     @ [xyz]))))
           | _ \<Rightarrow> Inl TypeError))"

subsection \<open>The loop over the file\<close>

record state =
  data :: "point list"
  previous_coordinates :: point
  shift :: point

text \<open>The \<^verbatim>\<open>if\<close>/\<^verbatim>\<open>elif\<close> chain on one line. Inside the loop \<open>lines\<close> is not empty, so
  \<^verbatim>\<open>if lines:\<close> always holds.\<close>

definition dispatch_line :: "string \<Rightarrow> state \<Rightarrow> error + state" where
  "dispatch_line line s =
     (if is_move line then
        and_then (handle_linear_move line (previous_coordinates s) (shift s)) (\<lambda>p.
          Inr (s\<lparr>data := data s @ [p]\<rparr>))
      else if is_arc line then
        and_then (handle_arc_move_ij line (previous_coordinates s) (shift s)) (\<lambda>extreme_values.
          Inr (s\<lparr>data := data s @ extreme_values\<rparr>))
      else if is_coordinate_shift line then
        and_then (handle_coordinate_shift line (shift s)) (\<lambda>sh.
          Inr (s\<lparr>shift := sh\<rparr>))
      else Inr s)"

text \<open>One pass of the loop body: strip, dispatch, then
  \<^verbatim>\<open>if data: previous_coordinates = data[-1]\<close>.\<close>

definition process_line :: "string \<Rightarrow> state \<Rightarrow> error + state" where
  "process_line line s =
     and_then (dispatch_line (py_strip line) s) (\<lambda>s.
       Inr (if data s \<noteq> [] then s\<lparr>previous_coordinates := last (data s)\<rparr> else s))"

fun process_lines :: "string list \<Rightarrow> state \<Rightarrow> error + state" where
  "process_lines [] s = Inr s"
| "process_lines (line # lines) s = and_then (process_line line s) (process_lines lines)"

definition initial_state :: state where
  "initial_state = \<lparr>data = [], previous_coordinates = (0, 0, 0), shift = (0, 0, 0)\<rparr>"

definition create_dataset_from_input :: "string list \<Rightarrow> error + point list" where
  "create_dataset_from_input lines =
     and_then (process_lines lines initial_state) (\<lambda>s. Inr (data s))"

subsection \<open>Extreme values\<close>

definition column :: "point \<Rightarrow> nat \<Rightarrow> real" where
  "column p k = (if k = 0 then pX p else if k = 1 then pY p else pZ p)"

text \<open>
  \<^verbatim>\<open>max(data, key=...)\<close> and \<^verbatim>\<open>min(data, key=...)\<close> return the first row with the extreme
  key, and raise \<^verbatim>\<open>ValueError\<close> on an empty list. The row they return is the list object
  stored in \<open>data\<close>, not a copy, so the model returns its index in \<open>data\<close>.
\<close>

definition first_best :: "(real \<Rightarrow> real \<Rightarrow> bool) \<Rightarrow> point list \<Rightarrow> nat \<Rightarrow> nat" where
  "first_best better rows column_index =
     foldl (\<lambda>best k. if better (column (rows ! k) column_index) (column (rows ! best) column_index)
                      then k else best)
           0 [1..<length rows]"

definition get_max_by_column :: "point list \<Rightarrow> nat \<Rightarrow> error + nat" where
  "get_max_by_column rows column_index =
     (if rows = [] then Inl ValueError else Inr (first_best (\<lambda>a b. b < a) rows column_index))"

definition get_min_by_column :: "point list \<Rightarrow> nat \<Rightarrow> error + nat" where
  "get_min_by_column rows column_index =
     (if rows = [] then Inl ValueError else Inr (first_best (\<lambda>a b. a < b) rows column_index))"

text \<open>What \<^verbatim>\<open>get_extreme_value\<close> returns: the message with the rounded Zmin, or the three
  rounded coordinates (the source turns each number into text with \<^verbatim>\<open>str\<close>; the model
  keeps the number).\<close>

datatype extreme = Zmin_message real | Coordinates real real real

text \<open>
  For the four planar extremes \<open>result\<close> is the row of \<open>data\<close> itself, and
  \<^verbatim>\<open>result[2] = zsafety\<close> writes into it. The function therefore returns, next to its
  value, \<open>data\<close> as it is after the call. For any other axis name \<open>result\<close> is the fresh
  list \<open>[0, 0, 0]\<close> and \<open>data\<close> is untouched.
\<close>

definition set_z :: "point \<Rightarrow> real \<Rightarrow> point" where
  "set_z p z = (pX p, pY p, z)"

definition stringresult :: "point \<Rightarrow> extreme" where
  "stringresult result =
     Coordinates (py_round3 (pX result)) (py_round3 (pY result)) (py_round3 (pZ result))"

definition get_extreme_value ::
  "string \<Rightarrow> point list \<Rightarrow> real \<Rightarrow> error + (extreme \<times> point list)"
where
  "get_extreme_value axis rows zsafety =
     (if axis = ''Zmin'' then
        and_then (get_min_by_column rows 2) (\<lambda>k.
          Inr (Zmin_message (py_round3 (pZ (rows ! k))), rows))
      else
        and_then
          (if axis = ''Ymin'' then and_then (get_min_by_column rows 1) (\<lambda>k. Inr (Some k))
           else if axis = ''Xmin'' then and_then (get_min_by_column rows 0) (\<lambda>k. Inr (Some k))
           else if axis = ''Ymax'' then and_then (get_max_by_column rows 1) (\<lambda>k. Inr (Some k))
           else if axis = ''Xmax'' then and_then (get_max_by_column rows 0) (\<lambda>k. Inr (Some k))
           else Inr None)
          (\<lambda>result.
             case result of
               None \<Rightarrow> Inr (stringresult (set_z (0, 0, 0) zsafety), rows)
             | Some k \<Rightarrow>
                 (let rows' = rows[k := set_z (rows ! k) zsafety]
                  in Inr (stringresult (rows' ! k), rows'))))"

text \<open>The calls of \<^verbatim>\<open>generate_output_file\<close>, in its order, on the one list \<open>data\<close>.\<close>

fun get_extreme_values ::
  "string list \<Rightarrow> point list \<Rightarrow> real \<Rightarrow> error + (extreme list \<times> point list)"
where
  "get_extreme_values [] rows zsafety = Inr ([], rows)"
| "get_extreme_values (axis # targets) rows zsafety =
     and_then (get_extreme_value axis rows zsafety) (\<lambda>(v, rows').
     and_then (get_extreme_values targets rows' zsafety) (\<lambda>(vs, rows'').
       Inr (v # vs, rows'')))"

definition generate_output_file :: "point list \<Rightarrow> real \<Rightarrow> error + (extreme list \<times> point list)" where
  "generate_output_file rows zsafety =
     get_extreme_values [''Zmin'', ''Ymin'', ''Xmin'', ''Ymax'', ''Xmax''] rows zsafety"

subsection \<open>The safety height\<close>

text \<open>The second component says whether the diagnostic was printed. The height is a
  finite number; the command line also accepts \<^verbatim>\<open>inf\<close> and \<^verbatim>\<open>nan\<close>, which are outside the
  model.\<close>

definition convert_input_zsafety :: "real \<Rightarrow> real \<times> bool" where
  "convert_input_zsafety zsafety =
     (let zsafety = py_round0 zsafety
      in if zsafety \<le> 0 then (25, True) else (zsafety, False))"

subsection \<open>The angle and the sweep test as the specification words them\<close>

text \<open>
  Modelled from the spec: its section 4.3, steps 2, 4 and 5, to be compared with
  \<open>get_arc_degrees\<close> and the loop of \<open>handle_arc_move_ij\<close>. The angle of a point clamps the
  cosine into \<open>[-1, 1]\<close> and is not rounded; a cardinal angle \<open>a\<close> is included when
  \<open>startAngle \<le> a < endAngle\<close>, after \<open>360\<close> was added to an \<open>endAngle\<close> below \<open>startAngle\<close>.
\<close>

definition spec_angle :: "point \<Rightarrow> real \<times> real \<Rightarrow> real \<Rightarrow> real" where
  "spec_angle p center radius =
     (let c = max (- 1) (min 1 ((pX p - fst center) / radius));
          a = degrees (arccos c)
      in if pY p - snd center < 0 then 360 - a else a)"

definition spec_includes :: "real \<Rightarrow> real \<Rightarrow> real \<Rightarrow> bool" where
  "spec_includes a startAngle endAngle =
     (let endAngle = (if endAngle < startAngle then endAngle + 360 else endAngle)
      in startAngle \<le> a \<and> a < endAngle)"

section \<open>Properties\<close>

subsection \<open>Classification\<close>

text \<open>When \<^verbatim>\<open>find\<close> returns \<open>0\<close> the pattern is a prefix of the line.\<close>

lemma py_find_zero_prefix: "py_find s sub = 0 \<Longrightarrow> prefix sub s"
  by (cases s) (auto split: if_splits simp: Let_def)

text \<open>
  The two bare \<^verbatim>\<open>find\<close> operands of \<open>is_move\<close> are false only when the line starts with
  \<^verbatim>\<open>G0 \<close> and with \<^verbatim>\<open>G1 \<close> at once, which no line does. So \<open>is_move\<close> holds of every
  line that is not empty, and the \<^verbatim>\<open>elif\<close> branches of the loop for arcs and for
  coordinate shifts are never taken.
\<close>

lemma is_move_nonempty: "is_move command = (command \<noteq> [])"
proof (cases "command = []")
  case True
  then show ?thesis by (simp add: is_move_def)
next
  case False
  have "\<not> (prefix ''G0 '' command \<and> prefix ''G1 '' command)"
    by (auto simp: prefix_def)
  then have "py_find command ''G0 '' \<noteq> 0 \<or> py_find command ''G1 '' \<noteq> 0"
    using py_find_zero_prefix by blast
  with False show ?thesis by (auto simp: is_move_def)
qed

lemma dispatch_line_nonempty:
  "line \<noteq> [] \<Longrightarrow>
   dispatch_line line s =
     and_then (handle_linear_move line (previous_coordinates s) (shift s))
       (\<lambda>p. Inr (s\<lparr>data := data s @ [p]\<rparr>))"
  by (simp add: dispatch_line_def is_move_nonempty)

lemma strip_X10_Y20: "py_strip ''X10 Y20'' = ''X10 Y20''"
  by code_simp

lemma linear_X10_Y20: "handle_linear_move ''X10 Y20'' (0, 0, 0) (0, 0, 0) = Inr (10, 20, 0)"
  by code_simp

text \<open>
  Claim C1: a line with no motion token, such as \<^verbatim>\<open>X10 Y20\<close>, is classified as Other,
  emits no point and leaves position and shift as they are.

  The code does otherwise: the line \<^verbatim>\<open>X10 Y20\<close> passes \<open>is_move\<close>, is resolved as a linear
  move, and the point \<open>(10, 20, 0)\<close> is appended and becomes the tracked position.
\<close>

theorem coordinate_only_line_emits_point:
  "process_line ''X10 Y20'' initial_state =
     Inr \<lparr>data = [(10, 20, 0)], previous_coordinates = (10, 20, 0), shift = (0, 0, 0)\<rparr>"
  by (simp add: process_line_def dispatch_line_nonempty and_then_def initial_state_def
      strip_X10_Y20 linear_X10_Y20)

subsection \<open>Coordinate shift\<close>

lemma strip_G92_X5: "py_strip ''G92 X5'' = ''G92 X5''"
  by code_simp

lemma strip_G01_X10: "py_strip ''G01 X10'' = ''G01 X10''"
  by code_simp

lemma linear_G92_X5: "handle_linear_move ''G92 X5'' (0, 0, 0) (0, 0, 0) = Inr (5, 0, 0)"
  by code_simp

lemma linear_G01_X10: "handle_linear_move ''G01 X10'' (5, 0, 0) (0, 0, 0) = Inr (10, 0, 0)"
  by code_simp

text \<open>Called on their own, the two handlers do what Example B expects.\<close>

lemma handle_coordinate_shift_G92_X5:
  "handle_coordinate_shift ''G92 X5'' (0, 0, 0) = Inr (- 5, 0, 0)"
  by code_simp

lemma handle_linear_move_after_shift:
  "handle_linear_move ''G01 X10'' (0, 0, 0) (- 5, 0, 0) = Inr (5, 0, 0)"
  by code_simp

text \<open>
  Claim C3: processing \<^verbatim>\<open>G92 X5\<close> at absolute X \<open>0\<close> sets the shift's x to \<open>-5\<close> and emits
  no point, and a following \<^verbatim>\<open>G01 X10\<close> resolves to absolute x \<open>5\<close>.

  In the loop the line \<^verbatim>\<open>G92 X5\<close> passes \<open>is_move\<close> first: it is resolved as a linear move
  to \<open>(5, 0, 0)\<close>, the shift stays \<open>(0, 0, 0)\<close>, and \<^verbatim>\<open>G01 X10\<close> resolves to x \<open>10\<close>.
\<close>

theorem shift_line_taken_as_move:
  "process_lines [''G92 X5'', ''G01 X10''] initial_state =
     Inr \<lparr>data = [(5, 0, 0), (10, 0, 0)], previous_coordinates = (10, 0, 0),
          shift = (0, 0, 0)\<rparr>"
  by (simp add: process_line_def dispatch_line_nonempty and_then_def initial_state_def
      strip_G92_X5 strip_G01_X10 linear_G92_X5 linear_G01_X10)

subsection \<open>Extreme values\<close>

text \<open>
  Claim C8: computing the extreme points is a pure reduction; every point of the sequence
  is left as it was.

  The code writes the safety height into the row it found: after the lookup of Ymin at
  safety height \<open>25\<close> the first point of \<open>data\<close> is \<open>(1, 2, 25)\<close>, no longer \<open>(1, 2, 3)\<close>.
\<close>

theorem get_extreme_value_overwrites_row:
  "get_extreme_value ''Ymin'' [(1, 2, 3), (4, 5, 6)] 25 =
     Inr (Coordinates 1 2 25, [(1, 2, 25), (4, 5, 6)])"
  by code_simp

text \<open>The five lookups of \<^verbatim>\<open>generate_output_file\<close> leave no z of an extreme row.\<close>

lemma generate_output_file_overwrites_rows:
  "generate_output_file [(1, 2, 3), (4, 5, 6)] 25 =
     Inr ([Zmin_message 3, Coordinates 1 2 25, Coordinates 1 2 25,
           Coordinates 4 5 25, Coordinates 4 5 25],
          [(1, 2, 25), (4, 5, 25)])"
  by code_simp

subsection \<open>The safety height\<close>

lemma py_round0_int: "py_round0 x \<in> \<int>"
  by (simp add: py_round0_def Let_def)

lemma py_round0_near: "\<bar>py_round0 x - x\<bar> \<le> 1 / 2"
  unfolding py_round0_def Let_def by (auto; linarith)

lemma py_round0_of_int: "py_round0 (of_int n) = of_int n"
  by (simp add: py_round0_def Let_def)

text \<open>Rounding never crosses a whole number.\<close>

lemma py_round0_ge: "of_int n \<le> x \<Longrightarrow> of_int n \<le> py_round0 x"
  unfolding py_round0_def Let_def by (auto simp: le_floor_iff; linarith)

lemma py_round0_le: "x \<le> of_int n \<Longrightarrow> py_round0 x \<le> of_int n"
proof -
  assume a: "x \<le> of_int n"
  have f: "\<lfloor>x\<rfloor> \<le> n" using a by (simp add: floor_le_iff)
  show ?thesis
  proof (cases "x - of_int \<lfloor>x\<rfloor> < 1 / 2")
    case True
    then show ?thesis using f by (simp add: py_round0_def Let_def)
  next
    case False
    then have "of_int \<lfloor>x\<rfloor> < x" by linarith
    then have "of_int \<lfloor>x\<rfloor> < (of_int n :: real)" using a by linarith
    then have "\<lfloor>x\<rfloor> + 1 \<le> n" by simp
    then have "(of_int (\<lfloor>x\<rfloor> + 1) :: real) \<le> of_int n" by (simp only: of_int_le_iff)
    moreover have "(of_int \<lfloor>x\<rfloor> :: real) \<le> of_int n" using f by simp
    ultimately show ?thesis by (simp add: py_round0_def Let_def)
  qed
qed

text \<open>The rounded value is positive exactly above one half: the tie \<open>1 / 2\<close> goes to the
  even neighbour \<open>0\<close>.\<close>

lemma py_round0_pos_iff: "(0 < py_round0 h) = (1 / 2 < h)"
proof (cases "h \<le> 0")
  case True
  then have "h \<le> of_int 0" by simp
  then have "py_round0 h \<le> of_int 0" by (rule py_round0_le)
  with True show ?thesis by simp
next
  case pos: False
  show ?thesis
  proof (cases "h < 1")
    case True
    with pos have "\<lfloor>h\<rfloor> = 0" by (simp add: floor_eq_iff)
    then show ?thesis by (auto simp: py_round0_def Let_def)
  next
    case False
    then have "of_int 1 \<le> h" by simp
    then have "of_int 1 \<le> py_round0 h" by (rule py_round0_ge)
    with False show ?thesis by simp
  qed
qed

lemma py_round0_12_6: "py_round0 (126 / 10) = 13"
  by (simp add: py_round0_def Let_def)

lemma py_round0_minus_5: "py_round0 (- 5) = - 5"
  by (simp add: py_round0_def Let_def)

lemma py_round0_0_3: "py_round0 (3 / 10) = 0"
  by (simp add: py_round0_def Let_def)

text \<open>
  Claim C10, amended: the safety height used is the configured height \<open>h\<close> rounded to the
  nearest whole number (\<open>12.6\<close> becomes \<open>13\<close>) exactly when the rounded value is positive,
  which is when \<open>h > 1 / 2\<close>. Whenever the rounded value is \<open>\<le> 0\<close> the default \<open>25\<close> is taken
  and the diagnostic printed; this includes every positive \<open>h\<close> up to one half, which
  rounds to \<open>0\<close>. The rounded value is a whole number at most one half away from \<open>h\<close>.
\<close>

theorem convert_input_zsafety_rounds:
  "(0 < py_round0 h \<longrightarrow> convert_input_zsafety h = (py_round0 h, False)) \<and>
   (py_round0 h \<le> 0 \<longrightarrow> convert_input_zsafety h = (25, True)) \<and>
   py_round0 h \<in> \<int> \<and> \<bar>py_round0 h - h\<bar> \<le> 1 / 2 \<and>
   (0 < py_round0 h) = (1 / 2 < h)"
proof -
  have "0 < py_round0 h \<longrightarrow> convert_input_zsafety h = (py_round0 h, False)"
    by (simp add: convert_input_zsafety_def Let_def)
  moreover have "py_round0 h \<le> 0 \<longrightarrow> convert_input_zsafety h = (25, True)"
    by (simp add: convert_input_zsafety_def Let_def)
  ultimately show ?thesis
    using py_round0_int [of h] py_round0_near [of h] py_round0_pos_iff [of h] by blast
qed

theorem convert_input_zsafety_rounds_witness:
  "convert_input_zsafety (126 / 10) = (13, False) \<and>
   convert_input_zsafety (- 5) = (25, True) \<and>
   convert_input_zsafety (1 / 2) = (25, True)"
proof -
  have a: "convert_input_zsafety (126 / 10) = (py_round0 (126 / 10), False)"
    using convert_input_zsafety_rounds [of "126 / 10"] py_round0_12_6 by simp
  have b: "convert_input_zsafety (- 5) = (25, True)"
    using convert_input_zsafety_rounds [of "- 5"] py_round0_minus_5 by simp
  have c: "convert_input_zsafety (1 / 2) = (25, True)"
    using convert_input_zsafety_rounds [of "1 / 2"] by simp
  show ?thesis using a b c py_round0_12_6 by simp
qed

text \<open>
  As the specification words it, every height \<open>h > 0\<close> is used rounded. The height \<open>0.3\<close>
  is positive and rounds to \<open>0\<close>, and the value used is the default \<open>25\<close>, with the
  diagnostic.
\<close>

theorem convert_input_zsafety_small_positive:
  "(0 :: real) < 3 / 10 \<and> py_round0 (3 / 10) = 0 \<and>
   convert_input_zsafety (3 / 10) = (25, True)"
  using py_round0_0_3 by (simp add: convert_input_zsafety_def Let_def)

subsection \<open>Axis words that are no numbers\<close>

lemma py_find_nonneg_iff: "(py_find s [c] > - 1) = (c \<in> set s)"
  by (induction s) (auto simp: Let_def)

text \<open>The only exception of the parser is the \<^verbatim>\<open>ValueError\<close> of \<^verbatim>\<open>float\<close>.\<close>

lemma parse_axis_error: "parse_axis letter store v c = Inl e \<Longrightarrow> e = ValueError"
  by (auto simp: parse_axis_def split: if_splits option.splits)

lemma parse_value_error: "parse_value v c = Inl e \<Longrightarrow> e = ValueError"
  by (auto simp: parse_value_def and_then_def split: sum.splits dest: parse_axis_error)

lemma parse_values_error: "parse_values vs c = Inl e \<Longrightarrow> e = ValueError"
  by (induction vs arbitrary: c) (auto simp: and_then_def split: sum.splits dest: parse_value_error)

lemma parse_axis_fails:
  "letter \<in> set v \<Longrightarrow> py_float (py_strip_chars [letter, CHR '' ''] v) = None \<Longrightarrow>
   parse_axis letter store v c = Inl ValueError"
  by (simp add: parse_axis_def py_find_nonneg_iff)

lemma parse_value_fails:
  assumes "letter \<in> set ''XYZIJ''" and "letter \<in> set v"
    and "py_float (py_strip_chars [letter, CHR '' ''] v) = None"
  shows "parse_value v c = Inl ValueError"
proof -
  have f: "\<And>store c. parse_axis letter store v c = Inl ValueError"
    using assms(2,3) by (rule parse_axis_fails)
  have e: "\<And>l store c e. parse_axis l store v c = Inl e \<Longrightarrow> e = ValueError"
    by (rule parse_axis_error)
  consider "letter = CHR ''X''" | "letter = CHR ''Y''" | "letter = CHR ''Z''"
    | "letter = CHR ''I''" | "letter = CHR ''J''"
    using assms(1) by auto
  then show ?thesis
  proof cases
    case 1
    with f show ?thesis by (simp add: parse_value_def and_then_def)
  next
    case 2
    with f e show ?thesis by (auto simp: parse_value_def and_then_def split: sum.splits)
  next
    case 3
    with f e show ?thesis by (auto simp: parse_value_def and_then_def split: sum.splits)
  next
    case 4
    with f e show ?thesis by (auto simp: parse_value_def and_then_def split: sum.splits)
  next
    case 5
    with f e show ?thesis by (auto simp: parse_value_def and_then_def split: sum.splits)
  qed
qed

lemma parse_values_fails:
  "v \<in> set vs \<Longrightarrow> (\<And>c. parse_value v c = Inl ValueError) \<Longrightarrow>
   parse_values vs c = Inl ValueError"
proof (induction vs arbitrary: c)
  case Nil
  then show ?case by simp
next
  case (Cons u us)
  show ?case
  proof (cases "parse_value u c")
    case (Inl e)
    then have "e = ValueError" by (rule parse_value_error)
    with Inl show ?thesis by (simp add: and_then_def)
  next
    case (Inr c')
    with Cons.prems(2) have "u \<noteq> v" by auto
    with Cons.prems(1) have "v \<in> set us" by simp
    then have "parse_values us c' = Inl ValueError" using Cons.prems(2) by (rule Cons.IH)
    with Inr show ?thesis by (simp add: and_then_def)
  qed
qed

lemma py_split_nonempty: "v \<in> set (py_split s) \<Longrightarrow> v \<noteq> [] \<Longrightarrow> s \<noteq> []"
  by (cases s) auto

text \<open>In the loop over the file every exception is the parser's.\<close>

lemma dispatch_line_empty: "dispatch_line [] s = Inr s"
  by (simp add: dispatch_line_def is_move_def is_arc_def is_coordinate_shift_def)

lemma process_line_error: "process_line line s = Inl e \<Longrightarrow> e = ValueError"
proof (cases "py_strip line = []")
  case True
  assume "process_line line s = Inl e"
  with True show ?thesis by (simp add: process_line_def dispatch_line_empty and_then_def)
next
  case False
  assume a: "process_line line s = Inl e"
  then have "parse_coordinates (py_strip line) = Inl e"
    using False
    by (auto simp: process_line_def dispatch_line_nonempty handle_linear_move_def and_then_def
        Let_def split: sum.splits)
  then show ?thesis
    unfolding parse_coordinates_def by (rule parse_values_error)
qed

lemma process_lines_fails:
  "line \<in> set lines \<Longrightarrow> (\<And>s. process_line line s = Inl ValueError) \<Longrightarrow>
   process_lines lines s = Inl ValueError"
proof (induction lines arbitrary: s)
  case Nil
  then show ?case by simp
next
  case (Cons l ls)
  show ?case
  proof (cases "process_line l s")
    case (Inl e)
    then have "e = ValueError" by (rule process_line_error)
    with Inl show ?thesis by (simp add: and_then_def)
  next
    case (Inr s')
    with Cons.prems(2) have "l \<noteq> line" by auto
    with Cons.prems(1) have "line \<in> set ls" by auto
    then have "process_lines ls s' = Inl ValueError" using Cons.prems(2) by (rule Cons.IH)
    with Inr show ?thesis by (simp add: and_then_def)
  qed
qed

lemma split_G01_Xabc: "py_split (py_strip ''G01 Xabc'') = [''G01'', ''Xabc'']"
  by code_simp

lemma float_abc: "py_float (py_strip_chars [CHR ''X'', CHR '' ''] ''Xabc'') = None"
  by code_simp

lemma abc_not_nonfinite: "\<not> nonfinite_literal (py_strip_chars [CHR ''X'', CHR '' ''] ''Xabc'')"
  by code_simp

lemma strip_G01_X1_5x: "py_strip ''G01 X1.5x Y2'' = ''G01 X1.5x Y2''"
  by code_simp

lemma parse_G01_X1_5x: "parse_coordinates ''G01 X1.5x Y2'' = Inl ValueError"
  by code_simp

text \<open>
  Claim C6, amended: when a word of a line contains one of the letters \<open>X\<close>, \<open>Y\<close>, \<open>Z\<close>,
  \<open>I\<close>, \<open>J\<close> and what is left of it after stripping that letter and blanks is no number
  for \<^verbatim>\<open>float\<close> (and none of its non-finite literals), then \<^verbatim>\<open>parse_coordinates\<close> raises
  \<^verbatim>\<open>ValueError\<close>. No default is put in place of the value, and nothing catches the
  exception: the pass of the loop over this line raises it, and so does the reading of
  any file that has the line. No data-format error naming the line is produced.
\<close>

theorem invalid_axis_value_raises_ValueError:
  assumes "v \<in> set (py_split (py_strip line))"
    and "letter \<in> set ''XYZIJ''" and "letter \<in> set v"
    and "py_float (py_strip_chars [letter, CHR '' ''] v) = None"
    and "\<not> nonfinite_literal (py_strip_chars [letter, CHR '' ''] v)"
    and "line \<in> set lines"
  shows "parse_coordinates (py_strip line) = Inl ValueError \<and>
         process_line line s = Inl ValueError \<and>
         create_dataset_from_input lines = Inl ValueError"
proof -
  have "\<And>c. parse_value v c = Inl ValueError"
    using assms(2,3,4) by (rule parse_value_fails)
  with assms(1) have p: "parse_coordinates (py_strip line) = Inl ValueError"
    unfolding parse_coordinates_def by (rule parse_values_fails)
  have "v \<noteq> []" using assms(3) by auto
  with assms(1) have "py_strip line \<noteq> []" by (rule py_split_nonempty)
  then have d: "\<And>s. dispatch_line (py_strip line) s = Inl ValueError"
    by (simp add: dispatch_line_nonempty handle_linear_move_def p and_then_def)
  then have l: "\<And>s. process_line line s = Inl ValueError"
    by (simp add: process_line_def and_then_def)
  with assms(6) have "process_lines lines initial_state = Inl ValueError"
    by (rule process_lines_fails)
  then have "create_dataset_from_input lines = Inl ValueError"
    by (simp add: create_dataset_from_input_def and_then_def)
  with p l show ?thesis by simp
qed

theorem invalid_axis_value_raises_ValueError_witness:
  "parse_coordinates (py_strip ''G01 Xabc'') = Inl ValueError \<and>
   process_line ''G01 Xabc'' initial_state = Inl ValueError \<and>
   create_dataset_from_input [''X1'', ''G01 Xabc''] = Inl ValueError"
  using invalid_axis_value_raises_ValueError
    [of "''Xabc''" "''G01 Xabc''" "CHR ''X''" "[''X1'', ''G01 Xabc'']" initial_state]
  by (simp add: split_G01_Xabc float_abc abc_not_nonfinite)

text \<open>
  As the specification words it, the parser reports a data-format error and does not end
  in an uncaught exception. Reading the file with the one line \<^verbatim>\<open>G01 X1.5x Y2\<close> ends in
  the uncaught \<^verbatim>\<open>ValueError\<close> of \<^verbatim>\<open>float\<close>.
\<close>

theorem invalid_axis_value_ends_program:
  "create_dataset_from_input [''G01 X1.5x Y2''] = Inl ValueError"
  by (simp add: create_dataset_from_input_def process_line_def dispatch_line_nonempty
      strip_G01_X1_5x handle_linear_move_def parse_G01_X1_5x and_then_def)

subsection \<open>Arc lines without a centre offset\<close>














subsection \<open>Arcs of radius zero\<close>

lemma get_arc_degrees_degenerate: "radius \<le> 0 \<Longrightarrow> get_arc_degrees p ctr radius = Inr 0"
  by (simp add: get_arc_degrees_def)

lemma crossing_points_empty: "crossing_points 0 0 order = []"
  by (simp add: crossing_points_def py_range_def py_int_def)

lemma parse_G02_I0_J0: "parse_coordinates ''G02 X10 Y0 I0 J0'' =
   Inr \<lparr>cX = Some 10, cY = Some 0, cZ = None, cI = Some 0, cJ = Some 0\<rparr>"
  by code_simp

lemma find_G02_I0_J0: "py_find ''G02 X10 Y0 I0 J0'' ''G02'' = 0"
  by code_simp

lemma parse_G03_I0_J0: "parse_coordinates ''G03 X5 Y6 I0 J0'' =
   Inr \<lparr>cX = Some 5, cY = Some 6, cZ = None, cI = Some 0, cJ = Some 0\<rparr>"
  by code_simp

lemma find_G03_I0_J0:
  "py_find ''G03 X5 Y6 I0 J0'' ''G02'' = - 1"
  "py_find ''G03 X5 Y6 I0 J0'' ''G2 '' = - 1"
  "py_find ''G03 X5 Y6 I0 J0'' ''G03'' = 0"
  by code_simp+

text \<open>
  Claim C5, amended: for every arc line (one that names \<^verbatim>\<open>G02\<close>, \<^verbatim>\<open>G2 \<close>, \<^verbatim>\<open>G03\<close> or
  \<^verbatim>\<open>G3 \<close>) whose computed radius is \<open>\<le> 0\<close>, the arc resolver returns the sequence of
  exactly one point, the resolved endpoint of the line: the degenerate arc contributes no
  cardinal point, but it does contribute its endpoint.
\<close>

theorem degenerate_arc_returns_endpoint:
  assumes "parse_coordinates line = Inr parsed"
    and "cI parsed = Some i" and "cJ parsed = Some j"
    and "sqrt (i\<^sup>2 + j\<^sup>2) \<le> 0"
    and "py_find line ''G02'' > - 1 \<or> py_find line ''G2 '' > - 1 \<or>
         py_find line ''G03'' > - 1 \<or> py_find line ''G3 '' > - 1"
  shows "handle_arc_move_ij line prev sh =
           Inr [(fX (fill_coordinates parsed prev sh), fY (fill_coordinates parsed prev sh),
                 fZ (fill_coordinates parsed prev sh))]"
proof -
  let ?c = "fill_coordinates parsed prev sh"
  have ij: "fI ?c = Some i" "fJ ?c = Some j"
    using assms(2,3) by (simp_all add: fill_coordinates_def)
  have a: "arc_start_end line (fX ?c, fY ?c, fZ ?c) prev (pX prev + i, pY prev + j)
             (sqrt (i\<^sup>2 + j\<^sup>2)) = Inr (Some (0, 0))"
    using assms(4,5) by (auto simp: arc_start_end_def get_arc_degrees_degenerate and_then_def)
  show ?thesis
    by (simp add: handle_arc_move_ij_def assms(1) and_then_def Let_def ij a crossing_points_empty)
qed

theorem degenerate_arc_returns_endpoint_witness:
  "handle_arc_move_ij ''G02 X10 Y0 I0 J0'' (0, 0, 0) (0, 0, 0) = Inr [(10, 0, 0)]"
  using degenerate_arc_returns_endpoint [of "''G02 X10 Y0 I0 J0''" _ 0 0 "(0, 0, 0)" "(0, 0, 0)"]
  by (simp add: parse_G02_I0_J0 find_G02_I0_J0 fill_coordinates_def fill_axis_def
      pX_def pY_def pZ_def)

text \<open>
  As the specification words it, an arc of radius \<open>\<le> 0\<close> yields the empty sequence. The
  line \<^verbatim>\<open>G03 X5 Y6 I0 J0\<close> from \<open>(1, 2, 3)\<close> has radius \<open>0\<close>, and the resolver returns its
  endpoint \<open>(5, 6, 3)\<close>.
\<close>

theorem degenerate_arc_not_empty:
  "handle_arc_move_ij ''G03 X5 Y6 I0 J0'' (1, 2, 3) (0, 0, 0) = Inr [(5, 6, 3)] \<and>
   handle_arc_move_ij ''G03 X5 Y6 I0 J0'' (1, 2, 3) (0, 0, 0) \<noteq> Inr []"
  by (simp add: handle_arc_move_ij_def parse_G03_I0_J0 and_then_def fill_coordinates_def
      fill_axis_def Let_def pX_def pY_def pZ_def arc_start_end_def find_G03_I0_J0
      get_arc_degrees_degenerate crossing_points_empty)

subsection \<open>The angle of a point\<close>

lemma py_round3_int: "py_round3 (of_int n) = of_int n"
proof -
  have "real_of_int n * 1000 = of_int (n * 1000)" by simp
  then show ?thesis unfolding py_round3_def by (simp only: py_round0_of_int)
qed

lemma degrees_pi [simp]: "degrees pi = 180"
  by (simp add: degrees_def)

lemma degrees_0 [simp]: "degrees 0 = 0"
  by (simp add: degrees_def)

lemma degrees_half_pi [simp]: "degrees (pi / 2) = 90"
  by (simp add: degrees_def)

lemma degrees_two_pi [simp]: "degrees (2 * pi) = 360"
  by (simp add: degrees_def)

lemma degrees_mono: "a \<le> b \<Longrightarrow> degrees a \<le> degrees b"
  by (simp add: degrees_def divide_right_mono)

lemma get_arc_degrees_int: "get_arc_degrees p ctr radius = Inr d \<Longrightarrow> d \<in> \<int>"
  by (auto simp: get_arc_degrees_def Let_def py_round0_int split: if_splits)

lemma get_arc_degrees_outside: "get_arc_degrees (20, 0, 0) (0, 0) 10 = Inl ValueError"
  using py_round3_int [of 2] by (simp add: get_arc_degrees_def pX_def pY_def Let_def)

lemma get_arc_degrees_360: "get_arc_degrees (10, - 1, 0) (0, 0) 10 = Inr 360"
  using py_round3_int [of 1]
  by (simp add: get_arc_degrees_def pX_def pY_def Let_def py_round0_def)

lemma get_arc_degrees_0: "get_arc_degrees (10, 0, 0) (0, 0) 10 = Inr 0"
  using py_round3_int [of 1]
  by (simp add: get_arc_degrees_def pX_def pY_def Let_def py_round0_def)

text \<open>
  Claim C7, amended: for every point, centre and radius \<open>> 0\<close>, \<open>get_arc_degrees\<close> rounds
  \<open>(p.x - c.x) / radius\<close> to three decimals and does not clamp it. When the rounded
  quotient lies outside \<open>[-1, 1]\<close> the arccosine raises \<^verbatim>\<open>ValueError\<close>. Otherwise the
  function returns a whole number of degrees in the closed interval \<open>[0, 360]\<close>: at most
  \<open>180\<close> when \<open>p.y - c.y \<ge> 0\<close>, and at least \<open>180\<close>, up to and including \<open>360\<close>, when
  \<open>p.y - c.y < 0\<close>.
\<close>

theorem get_arc_degrees_range:
  assumes "0 < radius"
  shows "(py_round3 ((pX p - fst ctr) / radius) < - 1 \<or> 1 < py_round3 ((pX p - fst ctr) / radius)
            \<longrightarrow> get_arc_degrees p ctr radius = Inl ValueError) \<and>
         (- 1 \<le> py_round3 ((pX p - fst ctr) / radius) \<and> py_round3 ((pX p - fst ctr) / radius) \<le> 1
            \<longrightarrow> (\<exists>d. get_arc_degrees p ctr radius = Inr d \<and> d \<in> \<int> \<and> 0 \<le> d \<and> d \<le> 360 \<and>
                     (0 \<le> pY p - snd ctr \<longrightarrow> d \<le> 180) \<and>
                     (pY p - snd ctr < 0 \<longrightarrow> 180 \<le> d)))"
proof (intro conjI impI)
  let ?c = "py_round3 ((pX p - fst ctr) / radius)"
  assume "?c < - 1 \<or> 1 < ?c"
  then show "get_arc_degrees p ctr radius = Inl ValueError"
    using assms by (auto simp: get_arc_degrees_def Let_def)
next
  let ?c = "py_round3 ((pX p - fst ctr) / radius)"
  assume c: "- 1 \<le> ?c \<and> ?c \<le> 1"
  have b: "0 \<le> arccos ?c" "arccos ?c \<le> pi"
    using c arccos_lbound arccos_ubound by auto
  show "\<exists>d. get_arc_degrees p ctr radius = Inr d \<and> d \<in> \<int> \<and> 0 \<le> d \<and> d \<le> 360 \<and>
          (0 \<le> pY p - snd ctr \<longrightarrow> d \<le> 180) \<and> (pY p - snd ctr < 0 \<longrightarrow> 180 \<le> d)"
  proof (cases "pY p - snd ctr < 0")
    case True
    let ?d = "py_round0 (degrees (2 * pi - arccos ?c))"
    have g: "get_arc_degrees p ctr radius = Inr ?d"
      using assms c True by (auto simp: get_arc_degrees_def Let_def)
    have "degrees pi \<le> degrees (2 * pi - arccos ?c)" using b by (intro degrees_mono) simp
    then have lo: "of_int 180 \<le> degrees (2 * pi - arccos ?c)" by simp
    have "degrees (2 * pi - arccos ?c) \<le> degrees (2 * pi)" using b by (intro degrees_mono) simp
    then have hi: "degrees (2 * pi - arccos ?c) \<le> of_int 360" by simp
    have "of_int 180 \<le> ?d" using lo by (rule py_round0_ge)
    moreover have "?d \<le> of_int 360" using hi by (rule py_round0_le)
    ultimately show ?thesis using g True py_round0_int by auto
  next
    case False
    let ?d = "py_round0 (degrees (arccos ?c))"
    have g: "get_arc_degrees p ctr radius = Inr ?d"
      using assms c False by (auto simp: get_arc_degrees_def Let_def)
    have "degrees 0 \<le> degrees (arccos ?c)" using b by (intro degrees_mono) simp
    then have lo: "of_int 0 \<le> degrees (arccos ?c)" by simp
    have "degrees (arccos ?c) \<le> degrees pi" using b by (intro degrees_mono) simp
    then have hi: "degrees (arccos ?c) \<le> of_int 180" by simp
    have "of_int 0 \<le> ?d" using lo by (rule py_round0_ge)
    moreover have "?d \<le> of_int 180" using hi by (rule py_round0_le)
    ultimately show ?thesis using g False py_round0_int by auto
  qed
qed

theorem get_arc_degrees_range_witness:
  "\<exists>d. get_arc_degrees (10, - 1, 0) (0, 0) 10 = Inr d \<and> d \<in> \<int> \<and> 180 \<le> d \<and> d \<le> 360"
  using get_arc_degrees_range [of 10 "(10, - 1, 0)" "(0, 0)"] py_round3_int [of 1]
  by (auto simp: pX_def pY_def)

text \<open>
  As the specification words it, the angle is below \<open>360\<close> and the function never fails.
  For the point \<open>(20, 0)\<close>, centre \<open>(0, 0)\<close> and radius \<open>10\<close> the quotient is \<open>2\<close> and the
  function raises \<^verbatim>\<open>ValueError\<close>; for the point \<open>(10, -1)\<close> it returns \<open>360\<close>.
\<close>

theorem get_arc_degrees_fails_and_reaches_360:
  "get_arc_degrees (20, 0, 0) (0, 0) 10 = Inl ValueError \<and>
   get_arc_degrees (10, - 1, 0) (0, 0) 10 = Inr 360"
  using get_arc_degrees_outside get_arc_degrees_360 by simp

subsection \<open>The full circle\<close>

lemma sqrt_100: "sqrt 100 = 10"
  using real_sqrt_abs [of 10] by simp

lemma parse_full_circle: "parse_coordinates ''G02 X10 Y0 I-10 J0'' =
   Inr \<lparr>cX = Some 10, cY = Some 0, cZ = None, cI = Some (- 10), cJ = Some 0\<rparr>"
  by code_simp

lemma find_full_circle: "py_find ''G02 X10 Y0 I-10 J0'' ''G02'' = 0"
  by code_simp

lemma strip_full_circle: "py_strip ''G02 X10 Y0 I-10 J0'' = ''G02 X10 Y0 I-10 J0''"
  by code_simp

lemma linear_full_circle:
  "handle_linear_move ''G02 X10 Y0 I-10 J0'' (10, 0, 0) (0, 0, 0) = Inr (10, 0, 0)"
  by code_simp

text \<open>Called on the line of Example C, the arc resolver finds the start and the end of
  the arc both at \<open>0\<close> degrees. The sweep is extended by \<open>360\<close> only when the end lies
  strictly below the start, so the range of whole degrees is empty.\<close>

lemma handle_arc_move_ij_full_circle:
  "handle_arc_move_ij ''G02 X10 Y0 I-10 J0'' (10, 0, 0) (0, 0, 0) = Inr [(10, 0, 0)]"
  by (simp add: handle_arc_move_ij_def parse_full_circle and_then_def fill_coordinates_def
      fill_axis_def Let_def pX_def pY_def pZ_def sqrt_100 arc_start_end_def find_full_circle
      get_arc_degrees_0 crossing_points_empty)

lemma process_line_full_circle:
  "process_line ''G02 X10 Y0 I-10 J0''
     \<lparr>data = [], previous_coordinates = (10, 0, 0), shift = (0, 0, 0)\<rparr> =
   Inr \<lparr>data = [(10, 0, 0)], previous_coordinates = (10, 0, 0), shift = (0, 0, 0)\<rparr>"
  by (simp add: process_line_def dispatch_line_nonempty and_then_def strip_full_circle
      linear_full_circle)

lemma generate_output_file_full_circle:
  "generate_output_file [(10, 0, 0)] 25 =
     Inr ([Zmin_message 0, Coordinates 10 0 25, Coordinates 10 0 25,
           Coordinates 10 0 25, Coordinates 10 0 25],
          [(10, 0, 25)])"
  by code_simp

text \<open>
  Claim C2: processing the line \<^verbatim>\<open>G02 X10 Y0 I-10 J0\<close> from the position \<open>(10, 0, 0)\<close>
  with zero shift yields five points, the four cardinal points of the circle and the
  endpoint, and the bounding box \<open>[-10, 10] \<times> [-10, 10]\<close>.

  The code yields one point, the endpoint \<open>(10, 0, 0)\<close>. In the loop over the file the line
  passes \<open>is_move\<close> and is resolved as a linear move; the arc resolver, called on the line
  directly, returns the endpoint alone as well. All four planar extremes of the preview
  are then the point \<open>(10, 0)\<close>.
\<close>

theorem full_circle_yields_endpoint_only:
  "process_line ''G02 X10 Y0 I-10 J0''
     \<lparr>data = [], previous_coordinates = (10, 0, 0), shift = (0, 0, 0)\<rparr> =
     Inr \<lparr>data = [(10, 0, 0)], previous_coordinates = (10, 0, 0), shift = (0, 0, 0)\<rparr> \<and>
   handle_arc_move_ij ''G02 X10 Y0 I-10 J0'' (10, 0, 0) (0, 0, 0) = Inr [(10, 0, 0)] \<and>
   generate_output_file [(10, 0, 0)] 25 =
     Inr ([Zmin_message 0, Coordinates 10 0 25, Coordinates 10 0 25,
           Coordinates 10 0 25, Coordinates 10 0 25],
          [(10, 0, 25)])"
  using process_line_full_circle handle_arc_move_ij_full_circle generate_output_file_full_circle
  by simp

subsection \<open>Which cardinal points an arc contributes\<close>

lemma py_int_of_int [simp]: "py_int (of_int n) = n"
  by (simp add: py_int_def)

lemma py_range_mem: "(a \<in> set (py_range lo hi)) = (lo \<le> a \<and> a < hi)"
  by (auto simp: py_range_def)

text \<open>On whole numbers of degrees the membership in \<^verbatim>\<open>range(int(arc_start), int(arc_end))\<close>
  is the comparison \<open>arc_start \<le> a < arc_end\<close>.\<close>

lemma crossing_test:
  assumes "s \<in> \<int>" "e \<in> \<int>"
  shows "(a \<in> set (py_range (py_int s) (py_int e))) = (s \<le> of_int a \<and> of_int a < e)"
proof -
  obtain m n where "s = of_int m" "e = of_int n"
    using assms by (auto elim!: Ints_cases)
  then show ?thesis by (simp add: py_range_mem)
qed

lemma crossing_points_filter:
  assumes "s \<in> \<int>" "e \<in> \<int>"
  shows "crossing_points s e [p90, p180, p270, p360] =
     map snd (filter (\<lambda>(a, p). s \<le> a \<and> a < e) [(90, p90), (180, p180), (270, p270), (360, p360)])"
  using crossing_test [OF assms, of 90] crossing_test [OF assms, of 180]
    crossing_test [OF assms, of 270] crossing_test [OF assms, of 360]
  unfolding crossing_points_def
  by (simp add: py_int_def)

lemma arc_start_end_int:
  assumes "arc_start_end line xyz prev ctr radius = Inr (Some (s, e))"
  shows "s \<in> \<int> \<and> e \<in> \<int>"
  using assms
  by (auto simp: arc_start_end_def and_then_def split: if_splits sum.splits
      dest: get_arc_degrees_int)

text \<open>
  A counter-clockwise arc from \<open>(0, 0)\<close> to \<open>(0, -4.002)\<close> around \<open>(0.001, -2.001)\<close>. Its
  radius is a little above \<open>2\<close>, so the cosine of the start and of the end, \<open>-0.001\<close> over
  the radius, lies between \<open>-0.0005\<close> and \<open>0\<close> and is rounded to \<open>0\<close>: the code takes the
  start at \<open>90\<close> and the end at \<open>270\<close> degrees, while the start lies a little beyond \<open>90\<close>.
\<close>

lemma parse_quarter_arc: "parse_coordinates ''G03 X0 Y-4.002 I0.001 J-2.001'' =
   Inr \<lparr>cX = Some 0, cY = Some (- 4002 / 1000), cZ = None, cI = Some (1 / 1000),
        cJ = Some (- 2001 / 1000)\<rparr>"
  by code_simp

lemma find_quarter_arc:
  "py_find ''G03 X0 Y-4.002 I0.001 J-2.001'' ''G02'' = - 1"
  "py_find ''G03 X0 Y-4.002 I0.001 J-2.001'' ''G2 '' = - 1"
  "py_find ''G03 X0 Y-4.002 I0.001 J-2.001'' ''G03'' = 0"
  by code_simp+

lemma radius_gt_2: "2 < sqrt ((1 / 1000)\<^sup>2 + (- 2001 / 1000)\<^sup>2)"
  by (rule real_less_rsqrt) (simp add: power2_eq_square)

lemma py_round0_small: "- 1 / 2 < y \<Longrightarrow> y < 1 / 2 \<Longrightarrow> py_round0 y = 0"
proof -
  assume a: "- 1 / 2 < y" "y < 1 / 2"
  obtain n where n: "py_round0 y = of_int n"
    using py_round0_int [of y] by (auto elim!: Ints_cases)
  have "\<bar>of_int n - y\<bar> \<le> 1 / 2" using py_round0_near [of y] n by simp
  then have "(of_int n :: real) < 1" "- 1 < (of_int n :: real)" using a by linarith+
  then have "n < 1" "- 1 < n" by linarith+
  then have "n = 0" by simp
  with n show ?thesis by simp
qed

lemma round3_small:
  assumes "2 < r"
  shows "py_round3 (- (1 / 1000) / r) = 0"
proof -
  have r: "0 < r" using assms by simp
  have e: "- (1 / 1000) / r * 1000 = - (1 / r)" by simp
  have "1 / r < 1 / 2" using assms r by (simp add: field_simps)
  moreover have "0 < 1 / r" using r by simp
  ultimately have "- 1 / 2 < - (1 / r)" "- (1 / r) < 1 / 2" by linarith+
  then have "py_round0 (- (1 / r)) = 0" by (rule py_round0_small)
  then show ?thesis unfolding py_round3_def e by simp
qed

lemma get_arc_degrees_quarter_start:
  assumes "2 < r"
  shows "get_arc_degrees (0, 0, 0) (1 / 1000, - 2001 / 1000) r = Inr 90"
proof -
  have c: "py_round3 ((pX (0, 0, 0) - fst (1 / 1000 :: real, - 2001 / 1000 :: real)) / r) = 0"
    using round3_small [OF assms] by (simp add: pX_def)
  show ?thesis
    unfolding get_arc_degrees_def Let_def c using assms
    by (simp add: pY_def py_round0_def)
qed

lemma degrees_three_half_pi: "degrees (3 * pi / 2) = 270"
  by (simp add: degrees_def)

lemma get_arc_degrees_quarter_end:
  assumes "2 < r"
  shows "get_arc_degrees (0, - 4002 / 1000, 0) (1 / 1000, - 2001 / 1000) r = Inr 270"
proof -
  have c: "py_round3 ((pX (0, - 4002 / 1000, 0) - fst (1 / 1000 :: real, - 2001 / 1000 :: real)) / r) = 0"
    using round3_small [OF assms] by (simp add: pX_def)
  have d: "py_round0 270 = 270" by (simp add: py_round0_def)
  show ?thesis
    unfolding get_arc_degrees_def Let_def c using assms
    by (simp add: pY_def degrees_three_half_pi d)
qed

lemma arc_start_end_quarter:
  assumes "2 < r"
  shows "arc_start_end ''G03 X0 Y-4.002 I0.001 J-2.001'' (0, - 4002 / 1000, 0) (0, 0, 0)
           (1 / 1000, - 2001 / 1000) r = Inr (Some (90, 270))"
  unfolding arc_start_end_def
  by (simp only: find_quarter_arc get_arc_degrees_quarter_start [OF assms]
      get_arc_degrees_quarter_end [OF assms] and_then_def) simp

lemma handle_arc_move_ij_quarter:
  "handle_arc_move_ij ''G03 X0 Y-4.002 I0.001 J-2.001'' (0, 0, 0) (0, 0, 0) =
     Inr [(1 / 1000, - 2001 / 1000 + sqrt ((1 / 1000)\<^sup>2 + (- 2001 / 1000)\<^sup>2), 0),
          (1 / 1000 - sqrt ((1 / 1000)\<^sup>2 + (- 2001 / 1000)\<^sup>2), - 2001 / 1000, 0),
          (0, - 4002 / 1000, 0)]"
  using arc_start_end_quarter [OF radius_gt_2]
  by (simp add: handle_arc_move_ij_def parse_quarter_arc and_then_def fill_coordinates_def
      fill_axis_def Let_def pX_def pY_def pZ_def crossing_points_filter)

lemma degrees_strict_mono: "a < b \<Longrightarrow> degrees a < degrees b"
  unfolding degrees_def by (rule mult_strict_right_mono) simp_all

lemma spec_angle_quarter_start:
  assumes "2 < r"
  shows "90 < spec_angle (0, 0, 0) (1 / 1000, - 2001 / 1000) r"
proof -
  let ?q = "- (1 / 1000) / r"
  have r: "0 < r" using assms by simp
  have "1 / r < 1 / 2" using assms r by (simp add: field_simps)
  moreover have "0 < 1 / r" using r by simp
  ultimately have q: "- 1 \<le> ?q" "?q < 0" by (simp_all add: field_simps)
  have e: "(pX (0, 0, 0) - fst (1 / 1000 :: real, - 2001 / 1000 :: real)) / r = ?q"
    by (simp add: pX_def)
  have "min 1 ?q = ?q" using q by (intro min_absorb2) linarith
  moreover have "max (- 1) ?q = ?q" using q by (intro max_absorb2)
  ultimately have m: "max (- 1) (min 1 ?q) = ?q" by simp
  have "arccos 0 < arccos ?q"
    using q by (intro arccos_less_arccos) simp_all
  then have "pi / 2 < arccos ?q" by simp
  then have "degrees (pi / 2) < degrees (arccos ?q)"
    by (rule degrees_strict_mono)
  then have "90 < degrees (arccos ?q)" by simp
  then show ?thesis
    unfolding spec_angle_def Let_def e m by (simp add: pY_def)
qed

text \<open>
  Claim C4, amended: for every arc line whose start and end angle are computed, a cardinal
  angle \<open>a\<close> of \<open>90\<close>, \<open>180\<close>, \<open>270\<close>, \<open>360\<close> contributes its cardinal point exactly when
  \<open>arc_start \<le> a < arc_end\<close>, where \<open>arc_start\<close> and \<open>arc_end\<close> are the angles of
  \<open>get_arc_degrees\<close>, each rounded to a whole number of degrees (after the cosine was rounded
  to three decimals), and \<open>arc_end\<close> was raised by \<open>360\<close> when it was below \<open>arc_start\<close>.
  The comparison is on the rounded angles, not on the continuous ones. The cardinal
  points come in ascending order of the angle and are followed by the endpoint.
\<close>

theorem cardinal_points_by_whole_degrees:
  assumes p: "parse_coordinates line = Inr parsed"
    and i: "cI parsed = Some i" and j: "cJ parsed = Some j"
    and a: "arc_start_end line
              (fX (fill_coordinates parsed prev sh), fY (fill_coordinates parsed prev sh),
               fZ (fill_coordinates parsed prev sh))
              prev (pX prev + i, pY prev + j) (sqrt (i\<^sup>2 + j\<^sup>2)) = Inr (Some (arc_start, arc_end))"
  shows "handle_arc_move_ij line prev sh =
     Inr (map snd
            (filter (\<lambda>(a, p). arc_start \<le> a \<and>
                               a < (if arc_end - arc_start < 0 then arc_end + 360 else arc_end))
               [(90, (pX prev + i, pY prev + j + sqrt (i\<^sup>2 + j\<^sup>2), fZ (fill_coordinates parsed prev sh))),
                (180, (pX prev + i - sqrt (i\<^sup>2 + j\<^sup>2), pY prev + j, fZ (fill_coordinates parsed prev sh))),
                (270, (pX prev + i, pY prev + j - sqrt (i\<^sup>2 + j\<^sup>2), fZ (fill_coordinates parsed prev sh))),
                (360, (pX prev + i + sqrt (i\<^sup>2 + j\<^sup>2), pY prev + j, fZ (fill_coordinates parsed prev sh)))])
          @ [(fX (fill_coordinates parsed prev sh), fY (fill_coordinates parsed prev sh),
              fZ (fill_coordinates parsed prev sh))])
     \<and> arc_start \<in> \<int> \<and> arc_end \<in> \<int>"
proof -
  let ?c = "fill_coordinates parsed prev sh"
  have ij: "fI ?c = Some i" "fJ ?c = Some j"
    using i j by (simp_all add: fill_coordinates_def)
  have se: "arc_start \<in> \<int>" "arc_end \<in> \<int>"
    using arc_start_end_int [OF a] by simp_all
  have e360: "arc_end + 360 \<in> \<int>"
    using se by simp
  show ?thesis
  proof (cases "arc_end - arc_start < 0")
    case True
    then show ?thesis
      using se
      by (simp add: handle_arc_move_ij_def p and_then_def Let_def ij a pZ_def
          crossing_points_filter [OF se(1) e360])
  next
    case False
    then show ?thesis
      using se
      by (simp add: handle_arc_move_ij_def p and_then_def Let_def ij a pZ_def
          crossing_points_filter [OF se(1) se(2)])
  qed
qed

theorem cardinal_points_by_whole_degrees_witness:
  "handle_arc_move_ij ''G03 X0 Y-4.002 I0.001 J-2.001'' (0, 0, 0) (0, 0, 0) =
     Inr [(1 / 1000, - 2001 / 1000 + sqrt ((1 / 1000)\<^sup>2 + (- 2001 / 1000)\<^sup>2), 0),
          (1 / 1000 - sqrt ((1 / 1000)\<^sup>2 + (- 2001 / 1000)\<^sup>2), - 2001 / 1000, 0),
          (0, - 4002 / 1000, 0)]"
  using cardinal_points_by_whole_degrees
      [of "''G03 X0 Y-4.002 I0.001 J-2.001''" _ "1 / 1000" "- 2001 / 1000" "(0, 0, 0)" "(0, 0, 0)"
          90 270]
    arc_start_end_quarter [OF radius_gt_2]
  by (simp add: parse_quarter_arc fill_coordinates_def fill_axis_def pX_def pY_def pZ_def)

text \<open>
  As the specification words it, the comparison is on the continuous angles. On this arc
  the code includes the cardinal point of \<open>90\<close> degrees, the first point of the result,
  but the continuous angle of the start is above \<open>90\<close>, so \<open>startAngle \<le> 90\<close> fails.
\<close>

theorem cardinal_point_included_before_start:
  "handle_arc_move_ij ''G03 X0 Y-4.002 I0.001 J-2.001'' (0, 0, 0) (0, 0, 0) =
     Inr [(1 / 1000, - 2001 / 1000 + sqrt ((1 / 1000)\<^sup>2 + (- 2001 / 1000)\<^sup>2), 0),
          (1 / 1000 - sqrt ((1 / 1000)\<^sup>2 + (- 2001 / 1000)\<^sup>2), - 2001 / 1000, 0),
          (0, - 4002 / 1000, 0)] \<and>
   \<not> spec_includes 90
        (spec_angle (0, 0, 0) (1 / 1000, - 2001 / 1000)
           (sqrt ((1 / 1000)\<^sup>2 + (- 2001 / 1000)\<^sup>2)))
        (spec_angle (0, - 4002 / 1000, 0) (1 / 1000, - 2001 / 1000)
           (sqrt ((1 / 1000)\<^sup>2 + (- 2001 / 1000)\<^sup>2)))"
proof -
  have "90 < spec_angle (0, 0, 0) (1 / 1000, - 2001 / 1000)
           (sqrt ((1 / 1000)\<^sup>2 + (- 2001 / 1000)\<^sup>2))"
    using radius_gt_2 by (rule spec_angle_quarter_start)
  then have "\<not> spec_includes 90
        (spec_angle (0, 0, 0) (1 / 1000, - 2001 / 1000)
           (sqrt ((1 / 1000)\<^sup>2 + (- 2001 / 1000)\<^sup>2)))
        (spec_angle (0, - 4002 / 1000, 0) (1 / 1000, - 2001 / 1000)
           (sqrt ((1 / 1000)\<^sup>2 + (- 2001 / 1000)\<^sup>2)))"
    unfolding spec_includes_def Let_def by linarith
  with handle_arc_move_ij_quarter show ?thesis by (rule conjI)
qed

end
